theory Spec2Isabelle
  imports Main
begin

section \<open>JavaScript values used by \<open>maps.js\<close>\<close>

text \<open>
  The module handles three kinds of JavaScript value: strings (the addresses, the API key,
  the option values), one number (\<open>maxSolutionCount\<close>, the integer 3) and \<open>undefined\<close>
  (an API key missing from the environment, an option field that was never set).
  A string is a \<open>char list\<close>: each \<open>char\<close> is one code unit below 256, so the model covers
  the strings of Latin-1 code units. Numbers are integers, printed in plain decimal as
  JavaScript prints an integer below \<open>10^21\<close>.
\<close>

datatype jsval = Undefined | Str string | Num int

definition digit_char :: "nat \<Rightarrow> char" where
  "digit_char d = ''0123456789'' ! (d mod 10)"

fun show_nat :: "nat \<Rightarrow> string" where
  "show_nat n = (if n < 10 then [digit_char n] else show_nat (n div 10) @ [digit_char (n mod 10)])"

declare show_nat.simps [simp del]

definition show_int :: "int \<Rightarrow> string" where
  "show_int i = (if i < 0 then CHR ''-'' # show_nat (nat (- i)) else show_nat (nat i))"

text \<open>The abstract operation \<open>ToString\<close>, applied wherever a value meets a string.\<close>

fun ToString :: "jsval \<Rightarrow> string" where
  "ToString Undefined = ''undefined''"
| "ToString (Str s) = s"
| "ToString (Num n) = show_int n"

text \<open>\<open>ToBoolean\<close>, as the conditions \<open>if (options.travelTime)\<close> apply it.\<close>

fun truthy :: "jsval \<Rightarrow> bool" where
  "truthy Undefined = False"
| "truthy (Str s) = (s \<noteq> [])"
| "truthy (Num n) = (n \<noteq> 0)"

subsection \<open>Objects as ordered property lists\<close>

text \<open>
  An object literal with string keys enumerates its properties in insertion order, and
  \<open>for (key in obj)\<close> follows that order, so an object is the list of its properties.
  \<open>get_prop\<close> is \<open>obj.k\<close> (\<open>undefined\<close> for a missing property); \<open>set_prop\<close> is
  \<open>obj[k] = v\<close>: it overwrites in place or appends.
\<close>

type_synonym obj = "(string \<times> jsval) list"

fun get_prop :: "obj \<Rightarrow> string \<Rightarrow> jsval" where
  "get_prop [] k = Undefined"
| "get_prop ((k', v) # ps) k = (if k' = k then v else get_prop ps k)"

fun set_prop :: "('k \<times> 'v) list \<Rightarrow> 'k \<Rightarrow> 'v \<Rightarrow> ('k \<times> 'v) list" where
  "set_prop [] k v = [(k, v)]"
| "set_prop ((k', v') # ps) k v = (if k' = k then (k, v) # ps else (k', v') # set_prop ps k v)"

definition has_prop :: "obj \<Rightarrow> string \<Rightarrow> bool" where
  "has_prop ps k = (k \<in> set (map fst ps))"

section \<open>The built-in \<open>encodeURIComponent\<close>\<close>

text \<open>
  The characters left alone are the letters, the digits and the marks
  \<open>- _ . ! ~ * ' ( )\<close>. Every other code unit is written as the bytes of its UTF-8
  encoding, each byte as \<open>%XX\<close> in upper-case hexadecimal: one byte below 128, two bytes
  from 128 to 255.
\<close>

definition uriUnescaped :: string where
  "uriUnescaped =
     ''ABCDEFGHIJKLMNOPQRSTUVWXYZabcdefghijklmnopqrstuvwxyz0123456789-_.!~*()'' @ [CHR 0x27]"

definition hex_char :: "nat \<Rightarrow> char" where
  "hex_char d = ''0123456789ABCDEF'' ! (d mod 16)"

definition percent :: "nat \<Rightarrow> string" where
  "percent b = [CHR ''%'', hex_char (b div 16), hex_char (b mod 16)]"

definition encode_unit :: "char \<Rightarrow> string" where
  "encode_unit c =
     (if c \<in> set uriUnescaped then [c]
      else if (of_char c :: nat) < 128 then percent (of_char c)
      else percent (192 + of_char c div 64) @ percent (128 + of_char c mod 64))"

definition encodeURIComponent :: "jsval \<Rightarrow> string" where
  "encodeURIComponent v = concat (map encode_unit (ToString v))"

section \<open>Building the URL\<close>

definition SERVICE_URL :: string where
  "SERVICE_URL = ''http://dev.virtualearth.net/REST/v1''"

definition TRANSIT_RESOURCE :: string where
  "TRANSIT_RESOURCE = ''Routes/Transit''"

definition WALKING_RESOURCE :: string where
  "WALKING_RESOURCE = ''Routes/Walking''"

definition DRIVING_RESOURCE :: string where
  "DRIVING_RESOURCE = ''Routes/Driving''"

text \<open>\<open>Array.prototype.join\<close>: the elements with the separator between them.\<close>

fun join :: "string list \<Rightarrow> string \<Rightarrow> string" where
  "join [] sep = []"
| "join [x] sep = x"
| "join (x # y # ys) sep = x @ sep @ join (y # ys) sep"

text \<open>
  \<open>objectToQueryString\<close>: the argument is \<open>None\<close> when the caller passes a falsy value
  (\<open>undefined\<close>, \<open>null\<close>), the case the test \<open>if (obj)\<close> sends to the empty string. Any
  object, the empty one too, is truthy. The loop pushes one \<open>key=value\<close> string per
  property onto \<open>args\<close>.
\<close>

definition push_arg :: "string list \<Rightarrow> string \<times> jsval \<Rightarrow> string list" where
  "push_arg args p = args @ [fst p @ ''='' @ encodeURIComponent (snd p)]"

definition objectToQueryString :: "obj option \<Rightarrow> string" where
  "objectToQueryString obj =
     (case obj of
        Some ps \<Rightarrow> ''?'' @ join (foldl push_arg [] ps) ''&''
      | None \<Rightarrow> [])"

definition createTransitUrl :: "obj option \<Rightarrow> string" where
  "createTransitUrl queryArgs = SERVICE_URL @ ''/'' @ TRANSIT_RESOURCE @ objectToQueryString queryArgs"

definition createWalkingUrl :: "obj option \<Rightarrow> string" where
  "createWalkingUrl queryArgs = SERVICE_URL @ ''/'' @ WALKING_RESOURCE @ objectToQueryString queryArgs"

definition createDrivingUrl :: "obj option \<Rightarrow> string" where
  "createDrivingUrl queryArgs = SERVICE_URL @ ''/'' @ DRIVING_RESOURCE @ objectToQueryString queryArgs"

section \<open>Default options\<close>

text \<open>
  \<open>new Date()\<close> reads the clock. The reading is a parameter of the model, given as the
  six numbers its UTC accessors return; \<open>getUTCMonth\<close> counts from 0.
\<close>

record date =
  getUTCFullYear :: int
  getUTCMonth :: nat
  getUTCDate :: nat
  getUTCHours :: nat
  getUTCMinutes :: nat
  getUTCSeconds :: nat

text \<open>
  \<open>getDefaultOptions\<close> assigns \<open>curTime\<close> without declaring it, so the variable lives
  outside every call: it is the one piece of mutable state the module has. It is \<open>None\<close>
  until the first assignment; reading it then raises \<open>ReferenceError\<close>.
\<close>

record globals =
  curTime :: "date option"

datatype error = ReferenceError | TypeError | SyntaxError

definition getDefaultOptions :: "date \<Rightarrow> globals \<Rightarrow> obj \<times> globals" where
  "getDefaultOptions now g =
     ([(''optimize'', Str ''time''), (''distanceUnit'', Str ''mi''), (''outputType'', Str ''json'')],
      g\<lparr>curTime := Some now\<rparr>)"

definition getDefaultTransitOptions :: "date \<Rightarrow> globals \<Rightarrow> (error + obj) \<times> globals" where
  "getDefaultTransitOptions now g =
     (case getDefaultOptions now g of
        (options, g1) \<Rightarrow>
          (case curTime g1 of
             None \<Rightarrow> (Inl ReferenceError, g1)
           | Some t \<Rightarrow>
               (Inr (set_prop (set_prop (set_prop options
                        ''travelTime''
                          (Str (show_nat (getUTCMonth t + 1) @ ''/'' @ show_nat (getUTCDate t)
                                 @ ''/'' @ show_int (getUTCFullYear t) @ '' ''
                                 @ show_nat (getUTCHours t) @ '':'' @ show_nat (getUTCMinutes t)
                                 @ '':'' @ show_nat (getUTCSeconds t))))
                        ''timeType'' (Str ''Departure''))
                        ''maxSolutionCount'' (Num 3)),
                g1)))"

definition getDefaultWalkingOptions :: "date \<Rightarrow> globals \<Rightarrow> obj \<times> globals" where
  "getDefaultWalkingOptions now g =
     (case getDefaultOptions now g of
        (options, g1) \<Rightarrow> (set_prop options ''optimize'' (Str ''distance''), g1))"

definition getDefaultDrivingOptions :: "date \<Rightarrow> globals \<Rightarrow> obj \<times> globals" where
  "getDefaultDrivingOptions now g =
     (case getDefaultOptions now g of
        (options, g1) \<Rightarrow> (set_prop options ''optimize'' (Str ''time''), g1))"

section \<open>Query arguments\<close>

text \<open>
  \<open>BING_MAPS_API_KEY\<close> is \<open>process.env.BING_MAPS_API_KEY\<close>, read when the module loads:
  a string, or \<open>undefined\<close> when the variable is not set. It is the first parameter here.
\<close>

definition convertLocationsAndOptionsToQueryStringArgs ::
  "jsval \<Rightarrow> string \<Rightarrow> string \<Rightarrow> obj \<Rightarrow> obj" where
  "convertLocationsAndOptionsToQueryStringArgs BING_MAPS_API_KEY startLocation endLocation options =
     (let args = [(''wp.0'', Str startLocation),
                  (''wp.1'', Str endLocation),
                  (''key'', BING_MAPS_API_KEY),
                  (''o'', get_prop options ''outputType''),
                  (''optmz'', get_prop options ''optimize''),
                  (''du'', get_prop options ''distanceUnit'')];
          args = (if truthy (get_prop options ''travelTime'')
                  then set_prop args ''dt'' (get_prop options ''travelTime'') else args);
          args = (if truthy (get_prop options ''timeType'')
                  then set_prop args ''tt'' (get_prop options ''timeType'') else args);
          args = (if truthy (get_prop options ''maxSolutionCount'')
                  then set_prop args ''maxSolutions'' (get_prop options ''maxSolutionCount'') else args)
      in args)"

section \<open>The built-in \<open>JSON.parse\<close>\<close>

text \<open>
  A parsed value. A string is a list of code units, since a \<open>\uXXXX\<close> escape can name
  any 16-bit unit. A number keeps its literal: the conversion to a double is not
  modelled. An object keeps its members in the order of their first occurrence, a
  repeated key taking the last value (the engine lists integer-like keys first; that
  reordering is not modelled).
\<close>

datatype json =
    JNull
  | JBool bool
  | JNum string
  | JStr "nat list"
  | JArr "json list"
  | JObj "(nat list \<times> json) list"

datatype token =
    TLBrace | TRBrace | TLBrack | TRBrack | TColon | TComma
  | TString "nat list"
  | TNumber string
  | TLit json

text \<open>The states of the number grammar \<open>-? (0 | [1-9][0-9]*) (. [0-9]+)? ([eE] [+-]? [0-9]+)?\<close>.\<close>

datatype numstate = NMinus | NZero | NInt | NDot | NFrac | NExpMark | NExpSign | NExp

datatype lexmode =
    LStart
  | LWord string json
  | LStr "nat list"
  | LEsc "nat list"
  | LUni "nat list" nat nat
  | LNum numstate string

definition is_digit :: "char \<Rightarrow> bool" where
  "is_digit c = (c \<in> set ''0123456789'')"

definition is_ws :: "char \<Rightarrow> bool" where
  "is_ws c = (c \<in> set [CHR 0x09, CHR 0x0A, CHR 0x0D, CHR 0x20])"

definition hex_val :: "char \<Rightarrow> nat option" where
  "hex_val c =
     (let n = (of_char c :: nat) in
      if 48 \<le> n \<and> n \<le> 57 then Some (n - 48)
      else if 65 \<le> n \<and> n \<le> 70 then Some (n - 55)
      else if 97 \<le> n \<and> n \<le> 102 then Some (n - 87)
      else None)"

fun num_step :: "numstate \<Rightarrow> char \<Rightarrow> numstate option" where
  "num_step NMinus c =
     (if c = CHR ''0'' then Some NZero else if is_digit c then Some NInt else None)"
| "num_step NZero c =
     (if c = CHR ''.'' then Some NDot
      else if c = CHR ''e'' \<or> c = CHR ''E'' then Some NExpMark else None)"
| "num_step NInt c =
     (if is_digit c then Some NInt
      else if c = CHR ''.'' then Some NDot
      else if c = CHR ''e'' \<or> c = CHR ''E'' then Some NExpMark else None)"
| "num_step NDot c = (if is_digit c then Some NFrac else None)"
| "num_step NFrac c =
     (if is_digit c then Some NFrac
      else if c = CHR ''e'' \<or> c = CHR ''E'' then Some NExpMark else None)"
| "num_step NExpMark c =
     (if c = CHR ''+'' \<or> c = CHR ''-'' then Some NExpSign
      else if is_digit c then Some NExp else None)"
| "num_step NExpSign c = (if is_digit c then Some NExp else None)"
| "num_step NExp c = (if is_digit c then Some NExp else None)"

fun num_final :: "numstate \<Rightarrow> bool" where
  "num_final NZero = True"
| "num_final NInt = True"
| "num_final NFrac = True"
| "num_final NExp = True"
| "num_final _ = False"

definition start_step :: "char \<Rightarrow> (token list \<times> lexmode) option" where
  "start_step c =
     (if is_ws c then Some ([], LStart)
      else if c = CHR ''{'' then Some ([TLBrace], LStart)
      else if c = CHR ''}'' then Some ([TRBrace], LStart)
      else if c = CHR ''['' then Some ([TLBrack], LStart)
      else if c = CHR '']'' then Some ([TRBrack], LStart)
      else if c = CHR '':'' then Some ([TColon], LStart)
      else if c = CHR '','' then Some ([TComma], LStart)
      else if c = CHR 0x22 then Some ([], LStr [])
      else if c = CHR ''-'' then Some ([], LNum NMinus [c])
      else if c = CHR ''0'' then Some ([], LNum NZero [c])
      else if is_digit c then Some ([], LNum NInt [c])
      else if c = CHR ''t'' then Some ([], LWord ''rue'' (JBool True))
      else if c = CHR ''f'' then Some ([], LWord ''alse'' (JBool False))
      else if c = CHR ''n'' then Some ([], LWord ''ull'' JNull)
      else None)"

definition escape_unit :: "char \<Rightarrow> nat option" where
  "escape_unit c =
     (if c = CHR 0x22 then Some 34
      else if c = CHR 0x5C then Some 92
      else if c = CHR ''/'' then Some 47
      else if c = CHR ''b'' then Some 8
      else if c = CHR ''f'' then Some 12
      else if c = CHR ''n'' then Some 10
      else if c = CHR ''r'' then Some 13
      else if c = CHR ''t'' then Some 9
      else None)"

fun lex_step :: "lexmode \<Rightarrow> char \<Rightarrow> (token list \<times> lexmode) option" where
  "lex_step LStart c = start_step c"
| "lex_step (LWord [] v) c = None"
| "lex_step (LWord (r # rs) v) c =
     (if c \<noteq> r then None
      else if rs = [] then Some ([TLit v], LStart)
      else Some ([], LWord rs v))"
| "lex_step (LStr acc) c =
     (if c = CHR 0x22 then Some ([TString (rev acc)], LStart)
      else if c = CHR 0x5C then Some ([], LEsc acc)
      else if (of_char c :: nat) < 32 then None
      else Some ([], LStr (of_char c # acc)))"
| "lex_step (LEsc acc) c =
     (if c = CHR ''u'' then Some ([], LUni acc 4 0)
      else (case escape_unit c of
              None \<Rightarrow> None
            | Some u \<Rightarrow> Some ([], LStr (u # acc))))"
| "lex_step (LUni acc k v) c =
     (case hex_val c of
        None \<Rightarrow> None
      | Some d \<Rightarrow>
          (if k \<le> 1 then Some ([], LStr ((v * 16 + d) # acc))
           else Some ([], LUni acc (k - 1) (v * 16 + d))))"
| "lex_step (LNum st acc) c =
     (case num_step st c of
        Some st' \<Rightarrow> Some ([], LNum st' (c # acc))
      | None \<Rightarrow>
          (if num_final st
           then (case start_step c of
                   None \<Rightarrow> None
                 | Some (ts, m) \<Rightarrow> Some (TNumber (rev acc) # ts, m))
           else None))"

fun lex_end :: "lexmode \<Rightarrow> token list option" where
  "lex_end LStart = Some []"
| "lex_end (LNum st acc) = (if num_final st then Some [TNumber (rev acc)] else None)"
| "lex_end _ = None"

fun lex :: "lexmode \<Rightarrow> string \<Rightarrow> token list option" where
  "lex m [] = lex_end m"
| "lex m (c # cs) =
     (case lex_step m c of
        None \<Rightarrow> None
      | Some (ts, m') \<Rightarrow>
          (case lex m' cs of
             None \<Rightarrow> None
           | Some rest \<Rightarrow> Some (ts @ rest)))"

text \<open>
  The grammar over tokens, run with an explicit stack: a frame is an open array with the
  elements read so far (latest first), or an open object with its members and the key
  whose value is being read.
\<close>

datatype frame =
    InArr "json list"
  | InObj "(nat list \<times> json) list" "nat list"

datatype pstate =
    PValue "frame list"
  | PArrStart "frame list"
  | PArrNext "json list" "frame list"
  | PObjStart "frame list"
  | PObjKey "(nat list \<times> json) list" "frame list"
  | PObjColon "(nat list \<times> json) list" "nat list" "frame list"
  | PObjNext "(nat list \<times> json) list" "frame list"
  | PDone json

fun deliver :: "json \<Rightarrow> frame list \<Rightarrow> pstate" where
  "deliver v [] = PDone v"
| "deliver v (InArr es # stk) = PArrNext (v # es) stk"
| "deliver v (InObj ms k # stk) = PObjNext (set_prop ms k v) stk"

fun begin_value :: "frame list \<Rightarrow> token \<Rightarrow> pstate option" where
  "begin_value stk TLBrack = Some (PArrStart stk)"
| "begin_value stk TLBrace = Some (PObjStart stk)"
| "begin_value stk (TString s) = Some (deliver (JStr s) stk)"
| "begin_value stk (TNumber n) = Some (deliver (JNum n) stk)"
| "begin_value stk (TLit v) = Some (deliver v stk)"
| "begin_value stk _ = None"

fun parse_step :: "pstate \<Rightarrow> token \<Rightarrow> pstate option" where
  "parse_step (PValue stk) t = begin_value stk t"
| "parse_step (PArrStart stk) t =
     (if t = TRBrack then Some (deliver (JArr []) stk) else begin_value (InArr [] # stk) t)"
| "parse_step (PArrNext es stk) t =
     (if t = TComma then Some (PValue (InArr es # stk))
      else if t = TRBrack then Some (deliver (JArr (rev es)) stk)
      else None)"
| "parse_step (PObjStart stk) t =
     (case t of
        TRBrace \<Rightarrow> Some (deliver (JObj []) stk)
      | TString k \<Rightarrow> Some (PObjColon [] k stk)
      | _ \<Rightarrow> None)"
| "parse_step (PObjKey ms stk) t =
     (case t of TString k \<Rightarrow> Some (PObjColon ms k stk) | _ \<Rightarrow> None)"
| "parse_step (PObjColon ms k stk) t =
     (if t = TColon then Some (PValue (InObj ms k # stk)) else None)"
| "parse_step (PObjNext ms stk) t =
     (if t = TComma then Some (PObjKey ms stk)
      else if t = TRBrace then Some (deliver (JObj ms) stk)
      else None)"
| "parse_step (PDone v) t = None"

fun parse_tokens :: "pstate \<Rightarrow> token list \<Rightarrow> json option" where
  "parse_tokens st [] = (case st of PDone v \<Rightarrow> Some v | _ \<Rightarrow> None)"
| "parse_tokens st (t # ts) =
     (case parse_step st t of
        None \<Rightarrow> None
      | Some st' \<Rightarrow> parse_tokens st' ts)"

text \<open>\<open>JSON.parse(text)\<close>: \<open>None\<close> is the \<open>SyntaxError\<close> it throws.\<close>

definition JSON_parse :: "string \<Rightarrow> json option" where
  "JSON_parse text =
     (case lex LStart text of
        None \<Rightarrow> None
      | Some ts \<Rightarrow> parse_tokens (PValue []) ts)"

section \<open>The request and its completion\<close>

text \<open>
  \<open>request(url, handler)\<close> starts one GET and returns; the handler runs when the
  transport completes, with \<open>(err, response, body)\<close>. A network failure gives an error
  object and leaves \<open>response\<close> and \<open>body\<close> undefined; otherwise \<open>err\<close> is \<open>null\<close>
  (\<open>None\<close> here, like \<open>undefined\<close>: the code only tests \<open>!err\<close>).
\<close>

record response =
  statusCode :: int

datatype request_error = RequestError string

text \<open>
  The second argument given to the caller's callback: the parsed body, or the object
  \<open>{"error": {"statusCode": ..., "body": ...}}\<close>.
\<close>

datatype result = Parsed json | ErrorEnvelope int json

text \<open>
  One invocation of the caller's callback: which callback, and its two arguments. What
  the handler does is the list of invocations it makes, or the exception it throws.
\<close>

type_synonym 'cb call = "'cb \<times> request_error option \<times> result"

definition callBingApi_handler ::
  "'cb option \<Rightarrow> request_error option \<Rightarrow> response option \<Rightarrow> jsval \<Rightarrow> error + 'cb call list" where
  "callBingApi_handler callback err response body =
     (case (if err \<noteq> None then Inr False
            else (case response of
                    None \<Rightarrow> Inl TypeError
                  | Some r \<Rightarrow> Inr (statusCode r = 200))) of
        Inl e \<Rightarrow> Inl e
      | Inr True \<Rightarrow>
          (case callback of
             None \<Rightarrow> Inr []
           | Some cb \<Rightarrow>
               (case JSON_parse (ToString body) of
                  None \<Rightarrow> Inl SyntaxError
                | Some v \<Rightarrow> Inr [(cb, None, Parsed v)]))
      | Inr False \<Rightarrow>
          (case callback of
             None \<Rightarrow> Inr []
           | Some cb \<Rightarrow>
               (case response of
                  None \<Rightarrow> Inl TypeError
                | Some r \<Rightarrow>
                    (case JSON_parse (ToString body) of
                       None \<Rightarrow> Inl SyntaxError
                     | Some v \<Rightarrow> Inr [(cb, err, ErrorEnvelope (statusCode r) v)]))))"

text \<open>
  A request in flight: the URL of the GET and the callback its handler is bound to.
  \<open>complete\<close> is the transport calling the handler.
\<close>

datatype 'cb request = Request string "'cb option"

definition callBingApi :: "string \<Rightarrow> 'cb option \<Rightarrow> 'cb request" where
  "callBingApi url callback = Request url callback"

fun complete ::
  "'cb request \<Rightarrow> request_error option \<Rightarrow> response option \<Rightarrow> jsval \<Rightarrow> error + 'cb call list" where
  "complete (Request url callback) err response body =
     callBingApi_handler callback err response body"

section \<open>The public operations\<close>

definition getTransitRoute ::
  "jsval \<Rightarrow> date \<Rightarrow> string \<Rightarrow> string \<Rightarrow> 'cb option \<Rightarrow> globals \<Rightarrow> (error + 'cb request) \<times> globals" where
  "getTransitRoute BING_MAPS_API_KEY now startLocation endLocation callback g =
     (case getDefaultTransitOptions now g of
        (Inl e, g1) \<Rightarrow> (Inl e, g1)
      | (Inr options, g1) \<Rightarrow>
          (let queryStringArgs =
                 convertLocationsAndOptionsToQueryStringArgs
                   BING_MAPS_API_KEY startLocation endLocation options;
               requestUrl = createTransitUrl (Some queryStringArgs)
           in (Inr (callBingApi requestUrl callback), g1)))"

definition getWalkingRoute ::
  "jsval \<Rightarrow> date \<Rightarrow> string \<Rightarrow> string \<Rightarrow> 'cb option \<Rightarrow> globals \<Rightarrow> (error + 'cb request) \<times> globals" where
  "getWalkingRoute BING_MAPS_API_KEY now startLocation endLocation callback g =
     (case getDefaultWalkingOptions now g of
        (options, g1) \<Rightarrow>
          (let queryStringArgs =
                 convertLocationsAndOptionsToQueryStringArgs
                   BING_MAPS_API_KEY startLocation endLocation options;
               requestUrl = createWalkingUrl (Some queryStringArgs)
           in (Inr (callBingApi requestUrl callback), g1)))"

definition getDrivingRoute ::
  "jsval \<Rightarrow> date \<Rightarrow> string \<Rightarrow> string \<Rightarrow> 'cb option \<Rightarrow> globals \<Rightarrow> (error + 'cb request) \<times> globals" where
  "getDrivingRoute BING_MAPS_API_KEY now startLocation endLocation callback g =
     (case getDefaultDrivingOptions now g of
        (options, g1) \<Rightarrow>
          (let queryStringArgs =
                 convertLocationsAndOptionsToQueryStringArgs
                   BING_MAPS_API_KEY startLocation endLocation options;
               requestUrl = createDrivingUrl (Some queryStringArgs)
           in (Inr (callBingApi requestUrl callback), g1)))"

subsection \<open>The first release of \<open>getTransitRoute\<close>\<close>

text \<open>
  Release 0.0.1 had the handler inside \<open>getTransitRoute\<close>. It is the same as
  \<open>callBingApi_handler\<close> but for the error envelope, whose \<open>body\<close> is the response
  text as received.
\<close>

datatype result_0_0_1 = Parsed_0_0_1 json | ErrorEnvelope_0_0_1 int jsval

definition getTransitRoute_0_0_1_handler ::
  "'cb option \<Rightarrow> request_error option \<Rightarrow> response option \<Rightarrow> jsval
     \<Rightarrow> error + ('cb \<times> request_error option \<times> result_0_0_1) list" where
  "getTransitRoute_0_0_1_handler callback err response body =
     (case (if err \<noteq> None then Inr False
            else (case response of
                    None \<Rightarrow> Inl TypeError
                  | Some r \<Rightarrow> Inr (statusCode r = 200))) of
        Inl e \<Rightarrow> Inl e
      | Inr True \<Rightarrow>
          (case callback of
             None \<Rightarrow> Inr []
           | Some cb \<Rightarrow>
               (case JSON_parse (ToString body) of
                  None \<Rightarrow> Inl SyntaxError
                | Some v \<Rightarrow> Inr [(cb, None, Parsed_0_0_1 v)]))
      | Inr False \<Rightarrow>
          (case callback of
             None \<Rightarrow> Inr []
           | Some cb \<Rightarrow>
               (case response of
                  None \<Rightarrow> Inl TypeError
                | Some r \<Rightarrow> Inr [(cb, err, ErrorEnvelope_0_0_1 (statusCode r) body)])))"

section \<open>Observations used by the properties\<close>

text \<open>
  What a caller sees of a call that went through: the request it issued, and, once the
  transport answers, the invocations of its callback. A thrown exception invokes nothing.
\<close>

definition respond ::
  "(error + 'cb request) \<times> globals \<Rightarrow> request_error option \<Rightarrow> response option \<Rightarrow> jsval
     \<Rightarrow> error + 'cb call list" where
  "respond r err response body =
     (case fst r of
        Inl e \<Rightarrow> Inl e
      | Inr req \<Rightarrow> complete req err response body)"

fun invocations :: "error + 'c list \<Rightarrow> 'c list" where
  "invocations (Inl e) = []"
| "invocations (Inr cs) = cs"

fun request_url :: "error + 'cb request \<Rightarrow> string option" where
  "request_url (Inl e) = None"
| "request_url (Inr (Request url callback)) = Some url"

text \<open>
  Reading a URL back: the query is what follows the first \<open>?\<close>, its parameters are
  separated by \<open>&\<close>, and each is a key and a value around the first \<open>=\<close>.
\<close>

fun split_on :: "char \<Rightarrow> string \<Rightarrow> string list" where
  "split_on c [] = [[]]"
| "split_on c (x # xs) =
     (if x = c then [] # split_on c xs
      else (case split_on c xs of
              [] \<Rightarrow> [[x]]
            | y # ys \<Rightarrow> (x # y) # ys))"

definition key_value :: "string \<Rightarrow> string \<times> string" where
  "key_value s =
     (takeWhile (\<lambda>c. c \<noteq> CHR ''='') s, drop 1 (dropWhile (\<lambda>c. c \<noteq> CHR ''='') s))"

definition query_params :: "string \<Rightarrow> (string \<times> string) list" where
  "query_params url =
     (case dropWhile (\<lambda>c. c \<noteq> CHR ''?'') url of
        [] \<Rightarrow> []
      | q # rest \<Rightarrow> map key_value (split_on (CHR ''&'') rest))"

definition query_keys :: "string \<Rightarrow> string list" where
  "query_keys url = map fst (query_params url)"

section \<open>Lemmas about the model\<close>

subsection \<open>Options and query arguments\<close>

lemma getDefaultTransitOptions_eq:
  "getDefaultTransitOptions now g =
     (Inr [(''optimize'', Str ''time''), (''distanceUnit'', Str ''mi''), (''outputType'', Str ''json''),
           (''travelTime'',
              Str (show_nat (getUTCMonth now + 1) @ ''/'' @ show_nat (getUTCDate now)
                    @ ''/'' @ show_int (getUTCFullYear now) @ '' ''
                    @ show_nat (getUTCHours now) @ '':'' @ show_nat (getUTCMinutes now)
                    @ '':'' @ show_nat (getUTCSeconds now))),
           (''timeType'', Str ''Departure''), (''maxSolutionCount'', Num 3)],
      g\<lparr>curTime := Some now\<rparr>)"
  by (simp add: getDefaultTransitOptions_def getDefaultOptions_def)

lemma getDefaultWalkingOptions_eq:
  "getDefaultWalkingOptions now g =
     ([(''optimize'', Str ''distance''), (''distanceUnit'', Str ''mi''), (''outputType'', Str ''json'')],
      g\<lparr>curTime := Some now\<rparr>)"
  by (simp add: getDefaultWalkingOptions_def getDefaultOptions_def)

lemma getDefaultDrivingOptions_eq:
  "getDefaultDrivingOptions now g =
     ([(''optimize'', Str ''time''), (''distanceUnit'', Str ''mi''), (''outputType'', Str ''json'')],
      g\<lparr>curTime := Some now\<rparr>)"
  by (simp add: getDefaultDrivingOptions_def getDefaultOptions_def)

lemma show_nat_nonempty: "show_nat n \<noteq> []"
  by (subst show_nat.simps) simp

lemma args_transit:
  "t \<noteq> [] \<Longrightarrow> convertLocationsAndOptionsToQueryStringArgs k a b
     [(''optimize'', Str ''time''), (''distanceUnit'', Str ''mi''), (''outputType'', Str ''json''),
      (''travelTime'', Str t),
      (''timeType'', Str ''Departure''), (''maxSolutionCount'', Num 3)]
   = [(''wp.0'', Str a), (''wp.1'', Str b), (''key'', k), (''o'', Str ''json''),
      (''optmz'', Str ''time''), (''du'', Str ''mi''), (''dt'', Str t),
      (''tt'', Str ''Departure''), (''maxSolutions'', Num 3)]"
  by (simp add: convertLocationsAndOptionsToQueryStringArgs_def)

lemma args_plain:
  "convertLocationsAndOptionsToQueryStringArgs k a b
     [(''optimize'', Str z), (''distanceUnit'', Str ''mi''), (''outputType'', Str ''json'')]
   = [(''wp.0'', Str a), (''wp.1'', Str b), (''key'', k), (''o'', Str ''json''),
      (''optmz'', Str z), (''du'', Str ''mi'')]"
  by (simp add: convertLocationsAndOptionsToQueryStringArgs_def)

subsection \<open>The output of \<open>encodeURIComponent\<close> has no separators\<close>

lemma hex_char_in: "hex_char d \<in> set ''0123456789ABCDEF''"
proof -
  have "d mod 16 < length ''0123456789ABCDEF''" by simp
  then show ?thesis unfolding hex_char_def by (rule nth_mem)
qed

lemma hex_char_no_sep: "hex_char d \<noteq> CHR ''&''" "hex_char d \<noteq> CHR ''=''"
  using hex_char_in [of d] by auto

lemma percent_no_sep: "CHR ''&'' \<notin> set (percent b)" "CHR ''='' \<notin> set (percent b)"
  using hex_char_no_sep [of "b div 16"] hex_char_no_sep [of "b mod 16"]
  by (simp_all add: percent_def)

lemma uriUnescaped_no_sep: "CHR ''&'' \<notin> set uriUnescaped" "CHR ''='' \<notin> set uriUnescaped"
  by (simp_all add: uriUnescaped_def)

lemma encode_unit_no_sep:
  "CHR ''&'' \<notin> set (encode_unit c)" "CHR ''='' \<notin> set (encode_unit c)"
proof -
  have "c \<in> set uriUnescaped \<Longrightarrow> c \<noteq> CHR ''&'' \<and> c \<noteq> CHR ''=''"
    using uriUnescaped_no_sep by blast
  then show "CHR ''&'' \<notin> set (encode_unit c)" "CHR ''='' \<notin> set (encode_unit c)"
    unfolding encode_unit_def using percent_no_sep by auto
qed

lemma encodeURIComponent_no_sep:
  "CHR ''&'' \<notin> set (encodeURIComponent v)" "CHR ''='' \<notin> set (encodeURIComponent v)"
  by (auto simp: encodeURIComponent_def encode_unit_no_sep)

lemma encode_literals:
  "encodeURIComponent (Str ''json'') = ''json''"
  "encodeURIComponent (Str ''time'') = ''time''"
  "encodeURIComponent (Str ''distance'') = ''distance''"
  "encodeURIComponent (Str ''mi'') = ''mi''"
  "encodeURIComponent (Str ''Departure'') = ''Departure''"
  "encodeURIComponent Undefined = ''undefined''"
  by (simp_all add: encodeURIComponent_def encode_unit_def uriUnescaped_def)

lemma encode_three: "encodeURIComponent (Num 3) = ''3''"
  by (simp add: encodeURIComponent_def encode_unit_def uriUnescaped_def show_int_def
      show_nat.simps [of 3] digit_char_def)

subsection \<open>Reading a query string back\<close>

lemma foldl_push_arg:
  "foldl push_arg acc ps = acc @ map (\<lambda>p. fst p @ ''='' @ encodeURIComponent (snd p)) ps"
  by (induction ps arbitrary: acc) (simp_all add: push_arg_def)

lemma split_on_absent: "c \<notin> set s \<Longrightarrow> split_on c s = [s]"
  by (induction s) auto

lemma split_on_append: "c \<notin> set s \<Longrightarrow> split_on c (s @ c # t) = s # split_on c t"
  by (induction s) auto

lemma key_value_pair:
  "CHR ''='' \<notin> set k \<Longrightarrow> key_value (k @ CHR ''='' # v) = (k, v)"
  by (simp add: key_value_def takeWhile_append dropWhile_append)

lemma join_Cons: "join (x # xs) sep = (if xs = [] then x else x @ sep @ join xs sep)"
  by (cases xs) simp_all

lemma split_on_join:
  "xs \<noteq> [] \<Longrightarrow> \<forall>s\<in>set xs. c \<notin> set s \<Longrightarrow> split_on c (join xs [c]) = xs"
proof (induction xs)
  case Nil
  then show ?case by simp
next
  case (Cons x xs)
  show ?case
  proof (cases "xs = []")
    case True
    with Cons.prems show ?thesis by (simp add: split_on_absent)
  next
    case False
    with Cons have "split_on c (join xs [c]) = xs" by simp
    with False Cons.prems show ?thesis by (simp add: join_Cons split_on_append)
  qed
qed

lemma query_params_objectToQueryString:
  assumes "CHR ''?'' \<notin> set base" and "ps \<noteq> []"
    and "\<forall>p\<in>set ps. CHR ''&'' \<notin> set (fst p) \<and> CHR ''='' \<notin> set (fst p)"
  shows "query_params (base @ objectToQueryString (Some ps)) =
           map (\<lambda>p. (fst p, encodeURIComponent (snd p))) ps"
proof -
  let ?f = "\<lambda>p. fst p @ ''='' @ encodeURIComponent (snd p)"
  have q: "dropWhile (\<lambda>c. c \<noteq> CHR ''?'') (base @ objectToQueryString (Some ps))
             = ''?'' @ join (map ?f ps) ''&''"
    using assms(1) by (auto simp: objectToQueryString_def foldl_push_arg dropWhile_append3)
  have "\<forall>s\<in>set (map ?f ps). CHR ''&'' \<notin> set s"
    using assms(3) by (auto simp: encodeURIComponent_no_sep)
  with assms(2) have "split_on (CHR ''&'') (join (map ?f ps) ''&'') = map ?f ps"
    by (intro split_on_join) simp_all
  moreover have "map key_value (map ?f ps) = map (\<lambda>p. (fst p, encodeURIComponent (snd p))) ps"
    using assms(3) by (auto simp: key_value_pair)
  ultimately show ?thesis
    using q by (simp add: query_params_def)
qed

lemma base_no_query:
  "CHR ''?'' \<notin> set SERVICE_URL"
  "CHR ''?'' \<notin> set TRANSIT_RESOURCE"
  "CHR ''?'' \<notin> set WALKING_RESOURCE"
  "CHR ''?'' \<notin> set DRIVING_RESOURCE"
  by (simp_all add: SERVICE_URL_def TRANSIT_RESOURCE_def WALKING_RESOURCE_def DRIVING_RESOURCE_def)

lemma transit_query_params:
  "query_params (createTransitUrl (Some
        [(''wp.0'', Str a), (''wp.1'', Str b), (''key'', k), (''o'', Str ''json''),
         (''optmz'', Str ''time''), (''du'', Str ''mi''), (''dt'', Str t),
         (''tt'', Str ''Departure''), (''maxSolutions'', Num 3)])) =
     [(''wp.0'', encodeURIComponent (Str a)), (''wp.1'', encodeURIComponent (Str b)),
      (''key'', encodeURIComponent k), (''o'', ''json''), (''optmz'', ''time''), (''du'', ''mi''),
      (''dt'', encodeURIComponent (Str t)), (''tt'', ''Departure''), (''maxSolutions'', ''3'')]"
  unfolding createTransitUrl_def append_assoc [symmetric]
  by (subst query_params_objectToQueryString)
     (simp_all add: base_no_query encode_literals encode_three)

lemma walking_query_params:
  "query_params (createWalkingUrl (Some
        [(''wp.0'', Str a), (''wp.1'', Str b), (''key'', k), (''o'', Str ''json''),
         (''optmz'', Str ''distance''), (''du'', Str ''mi'')])) =
     [(''wp.0'', encodeURIComponent (Str a)), (''wp.1'', encodeURIComponent (Str b)),
      (''key'', encodeURIComponent k), (''o'', ''json''), (''optmz'', ''distance''), (''du'', ''mi'')]"
  unfolding createWalkingUrl_def append_assoc [symmetric]
  by (subst query_params_objectToQueryString)
     (simp_all add: base_no_query encode_literals)

lemma driving_query_params:
  "query_params (createDrivingUrl (Some
        [(''wp.0'', Str a), (''wp.1'', Str b), (''key'', k), (''o'', Str ''json''),
         (''optmz'', Str ''time''), (''du'', Str ''mi'')])) =
     [(''wp.0'', encodeURIComponent (Str a)), (''wp.1'', encodeURIComponent (Str b)),
      (''key'', encodeURIComponent k), (''o'', ''json''), (''optmz'', ''time''), (''du'', ''mi'')]"
  unfolding createDrivingUrl_def append_assoc [symmetric]
  by (subst query_params_objectToQueryString)
     (simp_all add: base_no_query encode_literals)

lemma keys_set_prop:
  "map fst (set_prop ps k v) = (if k \<in> set (map fst ps) then map fst ps else map fst ps @ [k])"
  by (induction ps) force+

lemma has_prop_set_prop: "has_prop (set_prop ps k v) k' = (k' = k \<or> has_prop ps k')"
  unfolding has_prop_def keys_set_prop by auto

lemma truthy_has_prop: "truthy (get_prop ps k) \<Longrightarrow> has_prop ps k"
  by (induction ps) (auto simp: has_prop_def split: if_splits)

lemma has_prop_args:
  "has_prop (convertLocationsAndOptionsToQueryStringArgs k a b options) ''dt''
     = truthy (get_prop options ''travelTime'')"
  "has_prop (convertLocationsAndOptionsToQueryStringArgs k a b options) ''tt''
     = truthy (get_prop options ''timeType'')"
  "has_prop (convertLocationsAndOptionsToQueryStringArgs k a b options) ''maxSolutions''
     = truthy (get_prop options ''maxSolutionCount'')"
  by (simp_all add: convertLocationsAndOptionsToQueryStringArgs_def Let_def has_prop_set_prop)
     (simp_all add: has_prop_def)

subsection \<open>The operations in closed form\<close>

lemma getTransitRoute_eq:
  "getTransitRoute k now a b cb g =
     (Inr (Request (createTransitUrl (Some
        [(''wp.0'', Str a), (''wp.1'', Str b), (''key'', k), (''o'', Str ''json''),
         (''optmz'', Str ''time''), (''du'', Str ''mi''),
         (''dt'', Str (show_nat (getUTCMonth now + 1) @ ''/'' @ show_nat (getUTCDate now)
                    @ ''/'' @ show_int (getUTCFullYear now) @ '' ''
                    @ show_nat (getUTCHours now) @ '':'' @ show_nat (getUTCMinutes now)
                    @ '':'' @ show_nat (getUTCSeconds now))),
         (''tt'', Str ''Departure''), (''maxSolutions'', Num 3)])) cb),
      g\<lparr>curTime := Some now\<rparr>)"
  unfolding getTransitRoute_def getDefaultTransitOptions_eq
  by (simp add: args_transit show_nat_nonempty callBingApi_def)

lemma getWalkingRoute_eq:
  "getWalkingRoute k now a b cb g =
     (Inr (Request (createWalkingUrl (Some
        [(''wp.0'', Str a), (''wp.1'', Str b), (''key'', k), (''o'', Str ''json''),
         (''optmz'', Str ''distance''), (''du'', Str ''mi'')])) cb),
      g\<lparr>curTime := Some now\<rparr>)"
  unfolding getWalkingRoute_def getDefaultWalkingOptions_eq
  by (simp add: args_plain callBingApi_def)

lemma getDrivingRoute_eq:
  "getDrivingRoute k now a b cb g =
     (Inr (Request (createDrivingUrl (Some
        [(''wp.0'', Str a), (''wp.1'', Str b), (''key'', k), (''o'', Str ''json''),
         (''optmz'', Str ''time''), (''du'', Str ''mi'')])) cb),
      g\<lparr>curTime := Some now\<rparr>)"
  unfolding getDrivingRoute_def getDefaultDrivingOptions_eq
  by (simp add: args_plain callBingApi_def)

lemma routes_store_curTime:
  "snd (getTransitRoute k now a b cb g) = g\<lparr>curTime := Some now\<rparr>"
  "snd (getWalkingRoute k now a b cb g) = g\<lparr>curTime := Some now\<rparr>"
  "snd (getDrivingRoute k now a b cb g) = g\<lparr>curTime := Some now\<rparr>"
  by (simp_all add: getTransitRoute_eq getWalkingRoute_eq getDrivingRoute_eq)

lemma routes_ignore_previous_state:
  "fst (getTransitRoute k now a b cb g) = fst (getTransitRoute k now a b cb g')"
  "fst (getWalkingRoute k now a b cb g) = fst (getWalkingRoute k now a b cb g')"
  "fst (getDrivingRoute k now a b cb g) = fst (getDrivingRoute k now a b cb g')"
  by (simp_all add: getTransitRoute_eq getWalkingRoute_eq getDrivingRoute_eq)

subsection \<open>The completion handler, case by case\<close>

lemma respond_routes:
  "respond (getTransitRoute k now a b cb g) err response body = callBingApi_handler cb err response body"
  "respond (getWalkingRoute k now a b cb g) err response body = callBingApi_handler cb err response body"
  "respond (getDrivingRoute k now a b cb g) err response body = callBingApi_handler cb err response body"
  by (simp_all add: respond_def getTransitRoute_eq getWalkingRoute_eq getDrivingRoute_eq)

lemma handler_ok:
  "statusCode r = 200 \<Longrightarrow> JSON_parse text = Some v \<Longrightarrow>
   callBingApi_handler (Some cb) None (Some r) (Str text) = Inr [(cb, None, Parsed v)]"
  by (simp add: callBingApi_handler_def)

lemma handler_ok_malformed:
  "statusCode r = 200 \<Longrightarrow> JSON_parse text = None \<Longrightarrow>
   callBingApi_handler (Some cb) None (Some r) (Str text) = Inl SyntaxError"
  by (simp add: callBingApi_handler_def)

lemma handler_error_json:
  "err \<noteq> None \<or> statusCode r \<noteq> 200 \<Longrightarrow> JSON_parse text = Some v \<Longrightarrow>
   callBingApi_handler (Some cb) err (Some r) (Str text) = Inr [(cb, err, ErrorEnvelope (statusCode r) v)]"
  by (auto simp: callBingApi_handler_def)

lemma handler_error_not_json:
  "err \<noteq> None \<or> statusCode r \<noteq> 200 \<Longrightarrow> JSON_parse text = None \<Longrightarrow>
   callBingApi_handler (Some cb) err (Some r) (Str text) = Inl SyntaxError"
  by (auto simp: callBingApi_handler_def)

lemma handler_no_response:
  "callBingApi_handler (Some cb) err None body = Inl TypeError"
  by (simp add: callBingApi_handler_def)

lemma handler_at_most_once:
  "length (invocations (callBingApi_handler cb err response body)) \<le> 1"
  by (simp add: callBingApi_handler_def split: option.splits bool.splits)

lemma handler_0_0_1_error:
  "err \<noteq> None \<or> statusCode r \<noteq> 200 \<Longrightarrow>
   getTransitRoute_0_0_1_handler (Some cb) err (Some r) body =
     Inr [(cb, err, ErrorEnvelope_0_0_1 (statusCode r) body)]"
  by (auto simp: getTransitRoute_0_0_1_handler_def)

lemma parse_stub: \<open>JSON_parse ''{"resourceSets":[]}'' = Some (JObj [(map of_char ''resourceSets'', JArr [])])\<close>
  by (simp add: JSON_parse_def start_step_def is_ws_def is_digit_def)

lemma parse_not_found: "JSON_parse ''Not Found'' = None"
  by (simp add: JSON_parse_def start_step_def is_ws_def is_digit_def)

lemma parse_quoted_not_found:
  \<open>JSON_parse ''"Not Found"'' = Some (JStr (map of_char ''Not Found''))\<close>
  by (simp add: JSON_parse_def start_step_def is_ws_def is_digit_def)

lemma parse_html: "JSON_parse ''<html>'' = None"
  by (simp add: JSON_parse_def start_step_def is_ws_def is_digit_def)

lemma transit_options_example:
  "fst (getDefaultTransitOptions
          \<lparr>getUTCFullYear = 2011, getUTCMonth = 5, getUTCDate = 7,
           getUTCHours = 9, getUTCMinutes = 3, getUTCSeconds = 0\<rparr> g) =
     Inr [(''optimize'', Str ''time''), (''distanceUnit'', Str ''mi''), (''outputType'', Str ''json''),
          (''travelTime'', Str ''6/7/2011 9:3:0''),
          (''timeType'', Str ''Departure''), (''maxSolutionCount'', Num 3)]"
proof -
  have "show_nat 6 = ''6''" "show_nat 7 = ''7''" "show_nat 9 = ''9''" "show_nat 3 = ''3''"
    "show_nat 0 = ''0''" "show_int 2011 = ''2011''"
    by code_simp+
  then show ?thesis by (simp add: getDefaultTransitOptions_eq)
qed

section \<open>The claims\<close>

text \<open>
  Claim C1: when the transport completes with a status other than 200, the callback
  receives the error envelope with that status. The code parses the body while it builds
  the envelope, so a 404 whose body is the plain text \<open>Not Found\<close> throws
  \<open>SyntaxError\<close> in the handler and the callback is never invoked. (With a body that is
  JSON the envelope is delivered, see \<open>handler_error_json\<close>; release 0.0.1 passed the
  body as received and always delivered it, see \<open>handler_0_0_1_error\<close>.)
\<close>

theorem non_json_error_body_throws:
  "respond (getTransitRoute (Str ''KEY'')
              \<lparr>getUTCFullYear = 2011, getUTCMonth = 5, getUTCDate = 7,
               getUTCHours = 9, getUTCMinutes = 3, getUTCSeconds = 0\<rparr>
              ''100 N Broad St, Philadelphia'' ''908 N 3rd St., Philadelphia''
              (Some ''callback'') \<lparr>curTime = None\<rparr>)
     None (Some \<lparr>statusCode = 404\<rparr>) (Str ''Not Found'') = Inl SyntaxError"
  by (simp add: respond_routes handler_error_not_json parse_not_found)

text \<open>
  Claim C2: when the transport itself fails, the callback receives the transport error as
  its first argument. The code reads \<open>response.statusCode\<close> while it builds the
  envelope; after a network failure \<open>response\<close> is undefined, so the handler throws
  \<open>TypeError\<close> and the callback is never invoked.
\<close>

theorem transport_failure_throws:
  "respond (getTransitRoute (Str ''KEY'')
              \<lparr>getUTCFullYear = 2011, getUTCMonth = 5, getUTCDate = 7,
               getUTCHours = 9, getUTCMinutes = 3, getUTCSeconds = 0\<rparr>
              ''100 N Broad St, Philadelphia'' ''908 N 3rd St., Philadelphia''
              (Some ''callback'') \<lparr>curTime = None\<rparr>)
     (Some (RequestError ''ECONNREFUSED'')) None Undefined = Inl TypeError"
  by (simp add: respond_routes handler_no_response)

text \<open>
  Claim C3 as stated fails: a 200 response whose body is not JSON completes the
  transport, and the callback is not invoked at all.
\<close>

theorem callback_skipped_counterexample:
  "length (invocations
     (respond (getTransitRoute (Str ''KEY'')
                 \<lparr>getUTCFullYear = 2011, getUTCMonth = 5, getUTCDate = 7,
                  getUTCHours = 9, getUTCMinutes = 3, getUTCSeconds = 0\<rparr>
                 ''100 N Broad St, Philadelphia'' ''908 N 3rd St., Philadelphia''
                 (Some ''callback'') \<lparr>curTime = None\<rparr>)
        None (Some \<lparr>statusCode = 200\<rparr>) (Str ''<html>''))) \<noteq> 1"
  by (simp add: respond_routes handler_ok_malformed parse_html)

text \<open>
  Claim C3, as the code has it. For each of the three operations called with a callback,
  the callback is never invoked more than once. When the transport delivers a response
  whose body is JSON it is invoked exactly once: with \<open>(undefined, parsed body)\<close> if
  there is no transport error and the status is 200, and with the error and the envelope
  \<open>{error: {statusCode, body: parsed body}}\<close> if not. When a 200 response has a body
  that is not JSON, the parse failure propagates and the callback is not invoked.
\<close>

theorem callback_once_when_body_parses:
  assumes "r \<in> {getTransitRoute k now a b (Some cb) g,
                getWalkingRoute k now a b (Some cb) g,
                getDrivingRoute k now a b (Some cb) g}"
  shows "length (invocations (respond r err response body)) \<le> 1
       \<and> (JSON_parse text = Some v \<longrightarrow>
            respond r err (Some resp) (Str text) =
              Inr [if err = None \<and> statusCode resp = 200 then (cb, None, Parsed v)
                   else (cb, err, ErrorEnvelope (statusCode resp) v)])
       \<and> (statusCode resp' = 200 \<and> JSON_parse text' = None \<longrightarrow>
            respond r None (Some resp') (Str text') = Inl SyntaxError)"
proof -
  have r: "respond r = callBingApi_handler (Some cb)"
    using assms by (auto simp: fun_eq_iff respond_routes)
  have once: "length (invocations (respond r err response body)) \<le> 1"
    unfolding r by (rule handler_at_most_once)
  have parsed: "respond r err (Some resp) (Str text) =
              Inr [if err = None \<and> statusCode resp = 200 then (cb, None, Parsed v)
                   else (cb, err, ErrorEnvelope (statusCode resp) v)]"
    if "JSON_parse text = Some v"
  proof (cases "err = None \<and> statusCode resp = 200")
    case True
    with that show ?thesis unfolding r by (simp add: handler_ok)
  next
    case False
    then have "err \<noteq> None \<or> statusCode resp \<noteq> 200" by simp
    from handler_error_json [OF this that, of cb] False show ?thesis unfolding r by auto
  qed
  have malformed: "respond r None (Some resp') (Str text') = Inl SyntaxError"
    if "statusCode resp' = 200" "JSON_parse text' = None"
    unfolding r using that by (rule handler_ok_malformed)
  from once parsed malformed show ?thesis by blast
qed

text \<open>Claim C3, an instance: a 404 with a JSON body, and a 200 with an HTML body.\<close>

theorem callback_once_when_body_parses_witness:
  \<open>getTransitRoute (Str ''KEY'')
       \<lparr>getUTCFullYear = 2011, getUTCMonth = 5, getUTCDate = 7,
        getUTCHours = 9, getUTCMinutes = 3, getUTCSeconds = 0\<rparr>
       ''100 N Broad St, Philadelphia'' ''908 N 3rd St., Philadelphia''
       (Some ''callback'') \<lparr>curTime = None\<rparr>
     \<in> {getTransitRoute (Str ''KEY'')
          \<lparr>getUTCFullYear = 2011, getUTCMonth = 5, getUTCDate = 7,
           getUTCHours = 9, getUTCMinutes = 3, getUTCSeconds = 0\<rparr>
          ''100 N Broad St, Philadelphia'' ''908 N 3rd St., Philadelphia''
          (Some ''callback'') \<lparr>curTime = None\<rparr>}
   \<and> JSON_parse ''{"statusCode":404}'' = Some (JObj [(map of_char ''statusCode'', JNum ''404'')])
   \<and> statusCode \<lparr>statusCode = 200\<rparr> = 200
   \<and> JSON_parse ''<html>'' = None
   \<and> respond (getTransitRoute (Str ''KEY'')
                \<lparr>getUTCFullYear = 2011, getUTCMonth = 5, getUTCDate = 7,
                 getUTCHours = 9, getUTCMinutes = 3, getUTCSeconds = 0\<rparr>
                ''100 N Broad St, Philadelphia'' ''908 N 3rd St., Philadelphia''
                (Some ''callback'') \<lparr>curTime = None\<rparr>)
        None (Some \<lparr>statusCode = 404\<rparr>) (Str ''{"statusCode":404}'')
       = Inr [(''callback'', None,
               ErrorEnvelope 404 (JObj [(map of_char ''statusCode'', JNum ''404'')]))]
   \<and> respond (getTransitRoute (Str ''KEY'')
                \<lparr>getUTCFullYear = 2011, getUTCMonth = 5, getUTCDate = 7,
                 getUTCHours = 9, getUTCMinutes = 3, getUTCSeconds = 0\<rparr>
                ''100 N Broad St, Philadelphia'' ''908 N 3rd St., Philadelphia''
                (Some ''callback'') \<lparr>curTime = None\<rparr>)
        None (Some \<lparr>statusCode = 200\<rparr>) (Str ''<html>'') = Inl SyntaxError\<close>
proof -
  have p: \<open>JSON_parse ''{"statusCode":404}'' = Some (JObj [(map of_char ''statusCode'', JNum ''404'')])\<close>
    by (simp add: JSON_parse_def start_step_def is_ws_def is_digit_def)
  show ?thesis
    using callback_once_when_body_parses
      [of "getTransitRoute (Str ''KEY'')
             \<lparr>getUTCFullYear = 2011, getUTCMonth = 5, getUTCDate = 7,
              getUTCHours = 9, getUTCMinutes = 3, getUTCSeconds = 0\<rparr>
             ''100 N Broad St, Philadelphia'' ''908 N 3rd St., Philadelphia''
             (Some ''callback'') \<lparr>curTime = None\<rparr>"
          "Str ''KEY''"
          "\<lparr>getUTCFullYear = 2011, getUTCMonth = 5, getUTCDate = 7,
              getUTCHours = 9, getUTCMinutes = 3, getUTCSeconds = 0\<rparr>"
          "''100 N Broad St, Philadelphia''" "''908 N 3rd St., Philadelphia''"
          "''callback''" "\<lparr>curTime = None\<rparr>"
          None None Undefined
          \<open>''{"statusCode":404}''\<close> "JObj [(map of_char ''statusCode'', JNum ''404'')]"
          "\<lparr>statusCode = 404\<rparr>" "\<lparr>statusCode = 200\<rparr>" "''<html>''"]
      p parse_html
    by simp
qed

text \<open>
  Claim C4, as the code has it. For every object, \<open>objectToQueryString\<close> returns \<open>?\<close>
  followed by the pairs \<open>key=percent-encoded-value\<close> joined with \<open>&\<close>, in the order of the
  properties; it returns the empty string only when no object is passed at all. For the
  empty object the result is the lone \<open>?\<close>.
\<close>

theorem objectToQueryString_pairs:
  "objectToQueryString (Some ps) =
     ''?'' @ join (map (\<lambda>p. fst p @ ''='' @ encodeURIComponent (snd p)) ps) ''&''
   \<and> objectToQueryString None = []
   \<and> objectToQueryString (Some []) = ''?''"
  by (simp add: objectToQueryString_def foldl_push_arg)

text \<open>
  Claim C4 as stated fails on the argument map with no arguments: the object \<open>{}\<close> is
  truthy, so the result is \<open>?\<close> and not the empty string.
\<close>

theorem objectToQueryString_empty_counterexample:
  "objectToQueryString (Some []) \<noteq> []"
  by (simp add: objectToQueryString_def)

text \<open>
  Claim C5: whatever the clock and the state, the options resolved for transit and for
  driving have \<open>optimize = "time"\<close>, those for walking have \<open>optimize = "distance"\<close>, and
  all three have \<open>distanceUnit = "mi"\<close> and \<open>outputType = "json"\<close>.
\<close>

theorem default_options_per_mode:
  "(\<exists>options. fst (getDefaultTransitOptions now g) = Inr options
        \<and> get_prop options ''optimize'' = Str ''time''
        \<and> get_prop options ''distanceUnit'' = Str ''mi''
        \<and> get_prop options ''outputType'' = Str ''json'')
   \<and> get_prop (fst (getDefaultDrivingOptions now g)) ''optimize'' = Str ''time''
   \<and> get_prop (fst (getDefaultDrivingOptions now g)) ''distanceUnit'' = Str ''mi''
   \<and> get_prop (fst (getDefaultDrivingOptions now g)) ''outputType'' = Str ''json''
   \<and> get_prop (fst (getDefaultWalkingOptions now g)) ''optimize'' = Str ''distance''
   \<and> get_prop (fst (getDefaultWalkingOptions now g)) ''distanceUnit'' = Str ''mi''
   \<and> get_prop (fst (getDefaultWalkingOptions now g)) ''outputType'' = Str ''json''"
  by (simp add: getDefaultTransitOptions_eq getDefaultDrivingOptions_eq getDefaultWalkingOptions_eq)

text \<open>
  Claim C6: for every pair of addresses (and every key, clock and state) the query string
  of the transit request has the keys \<open>dt\<close>, \<open>tt\<close> and \<open>maxSolutions\<close>, and the query
  strings of the walking and driving requests have none of them. The three keys are added
  to the arguments only when the option fields \<open>travelTime\<close>, \<open>timeType\<close> and
  \<open>maxSolutionCount\<close> are present.
\<close>

theorem transit_only_query_keys:
  "map_option query_keys (request_url (fst (getTransitRoute k now a b cb g)))
     = Some [''wp.0'', ''wp.1'', ''key'', ''o'', ''optmz'', ''du'', ''dt'', ''tt'', ''maxSolutions'']
   \<and> map_option query_keys (request_url (fst (getWalkingRoute k now a b cb g)))
     = Some [''wp.0'', ''wp.1'', ''key'', ''o'', ''optmz'', ''du'']
   \<and> map_option query_keys (request_url (fst (getDrivingRoute k now a b cb g)))
     = Some [''wp.0'', ''wp.1'', ''key'', ''o'', ''optmz'', ''du'']
   \<and> (has_prop (convertLocationsAndOptionsToQueryStringArgs k a b options) ''dt''
        \<longrightarrow> has_prop options ''travelTime'')
   \<and> (has_prop (convertLocationsAndOptionsToQueryStringArgs k a b options) ''tt''
        \<longrightarrow> has_prop options ''timeType'')
   \<and> (has_prop (convertLocationsAndOptionsToQueryStringArgs k a b options) ''maxSolutions''
        \<longrightarrow> has_prop options ''maxSolutionCount'')"
  by (simp add: getTransitRoute_eq getWalkingRoute_eq getDrivingRoute_eq query_keys_def
      transit_query_params walking_query_params driving_query_params
      has_prop_args truthy_has_prop)

text \<open>Claim C6, an instance: options that carry the three transit fields.\<close>

theorem transit_only_query_keys_witness:
  "has_prop (convertLocationsAndOptionsToQueryStringArgs Undefined ''a'' ''b''
       [(''travelTime'', Str ''6/7/2011 9:3:0''), (''timeType'', Str ''Departure''),
        (''maxSolutionCount'', Num 3)]) ''dt''
   \<and> has_prop (convertLocationsAndOptionsToQueryStringArgs Undefined ''a'' ''b''
       [(''travelTime'', Str ''6/7/2011 9:3:0''), (''timeType'', Str ''Departure''),
        (''maxSolutionCount'', Num 3)]) ''tt''
   \<and> has_prop (convertLocationsAndOptionsToQueryStringArgs Undefined ''a'' ''b''
       [(''travelTime'', Str ''6/7/2011 9:3:0''), (''timeType'', Str ''Departure''),
        (''maxSolutionCount'', Num 3)]) ''maxSolutions''
   \<and> has_prop [(''travelTime'', Str ''6/7/2011 9:3:0''), (''timeType'', Str ''Departure''),
        (''maxSolutionCount'', Num 3)] ''travelTime''
   \<and> has_prop [(''travelTime'', Str ''6/7/2011 9:3:0''), (''timeType'', Str ''Departure''),
        (''maxSolutionCount'', Num 3)] ''timeType''
   \<and> has_prop [(''travelTime'', Str ''6/7/2011 9:3:0''), (''timeType'', Str ''Departure''),
        (''maxSolutionCount'', Num 3)] ''maxSolutionCount''"
proof -
  let ?options = "[(''travelTime'', Str ''6/7/2011 9:3:0''), (''timeType'', Str ''Departure''),
        (''maxSolutionCount'', Num 3)]"
  let ?args = "convertLocationsAndOptionsToQueryStringArgs Undefined ''a'' ''b'' ?options"
  have added: "has_prop ?args ''dt''" "has_prop ?args ''tt''" "has_prop ?args ''maxSolutions''"
    by (simp_all add: has_prop_args)
  from transit_only_query_keys [of Undefined
      "\<lparr>getUTCFullYear = 2011, getUTCMonth = 5, getUTCDate = 7,
        getUTCHours = 9, getUTCMinutes = 3, getUTCSeconds = 0\<rparr>"
      "''a''" "''b''" "Some ''callback''" "\<lparr>curTime = None\<rparr>" ?options] added
  have "has_prop ?options ''travelTime''" "has_prop ?options ''timeType''"
    "has_prop ?options ''maxSolutionCount''"
    by blast+
  with added show ?thesis by blast
qed

text \<open>
  Claim C7: for each of the three operations, when the transport succeeds with status 200
  and a body that is JSON, the callback is invoked with \<open>undefined\<close> and the parsed
  value of the body.
\<close>

theorem success_gives_parsed_body:
  assumes "r \<in> {getTransitRoute k now a b (Some cb) g,
                getWalkingRoute k now a b (Some cb) g,
                getDrivingRoute k now a b (Some cb) g}"
    and "statusCode resp = 200"
    and "JSON_parse text = Some v"
  shows "respond r None (Some resp) (Str text) = Inr [(cb, None, Parsed v)]"
proof -
  have "respond r None (Some resp) (Str text)
          = callBingApi_handler (Some cb) None (Some resp) (Str text)"
    using assms(1) by (auto simp: respond_routes)
  with assms(2,3) show ?thesis by (simp add: handler_ok)
qed

text \<open>
  Claim C7, the stub: status 200 with the body \<open>{"resourceSets":[]}\<close> gives the callback
  \<open>(undefined, {resourceSets: []})\<close>.
\<close>

theorem success_gives_parsed_body_witness:
  \<open>statusCode \<lparr>statusCode = 200\<rparr> = 200
   \<and> JSON_parse ''{"resourceSets":[]}'' = Some (JObj [(map of_char ''resourceSets'', JArr [])])
   \<and> respond (getTransitRoute (Str ''KEY'')
                \<lparr>getUTCFullYear = 2011, getUTCMonth = 5, getUTCDate = 7,
                 getUTCHours = 9, getUTCMinutes = 3, getUTCSeconds = 0\<rparr>
                ''100 N Broad St, Philadelphia'' ''908 N 3rd St., Philadelphia''
                (Some ''callback'') \<lparr>curTime = None\<rparr>)
        None (Some \<lparr>statusCode = 200\<rparr>) (Str ''{"resourceSets":[]}'')
       = Inr [(''callback'', None, Parsed (JObj [(map of_char ''resourceSets'', JArr [])]))]\<close>
  using success_gives_parsed_body
      [of "getTransitRoute (Str ''KEY'')
             \<lparr>getUTCFullYear = 2011, getUTCMonth = 5, getUTCDate = 7,
              getUTCHours = 9, getUTCMinutes = 3, getUTCSeconds = 0\<rparr>
             ''100 N Broad St, Philadelphia'' ''908 N 3rd St., Philadelphia''
             (Some ''callback'') \<lparr>curTime = None\<rparr>"
          "Str ''KEY''"
          "\<lparr>getUTCFullYear = 2011, getUTCMonth = 5, getUTCDate = 7,
              getUTCHours = 9, getUTCMinutes = 3, getUTCSeconds = 0\<rparr>"
          "''100 N Broad St, Philadelphia''" "''908 N 3rd St., Philadelphia''"
          "''callback''" "\<lparr>curTime = None\<rparr>" "\<lparr>statusCode = 200\<rparr>"
          \<open>''{"resourceSets":[]}''\<close> "JObj [(map of_char ''resourceSets'', JArr [])]"]
    parse_stub
  by simp

text \<open>
  Claim C8: for every transit call the resolved options are \<open>optimize = "time"\<close>,
  \<open>distanceUnit = "mi"\<close>, \<open>outputType = "json"\<close>, \<open>travelTime\<close> the UTC time of this call
  written \<open>M/D/YYYY H:M:S\<close> with the month counted from 1, \<open>timeType = "Departure"\<close> and
  \<open>maxSolutionCount = 3\<close>, whatever \<open>curTime\<close> held before.
\<close>

theorem transit_options_resolved:
  "fst (getDefaultTransitOptions now g) =
     Inr [(''optimize'', Str ''time''), (''distanceUnit'', Str ''mi''), (''outputType'', Str ''json''),
          (''travelTime'',
             Str (show_nat (getUTCMonth now + 1) @ ''/'' @ show_nat (getUTCDate now) @ ''/''
                  @ show_int (getUTCFullYear now) @ '' '' @ show_nat (getUTCHours now) @ '':''
                  @ show_nat (getUTCMinutes now) @ '':'' @ show_nat (getUTCSeconds now))),
          (''timeType'', Str ''Departure''), (''maxSolutionCount'', Num 3)]"
  by (simp add: getDefaultTransitOptions_eq)

text \<open>
  Claim C9: no operation writes module-level mutable state, and the timestamp of a call
  does not outlive it. In the code every operation stores the timestamp in the undeclared
  variable \<open>curTime\<close>, where it stays after the call has returned: here after a
  walking call, which never uses the timestamp (for all three operations and every
  input, see \<open>routes_store_curTime\<close>). No later call sees the stored value in its
  result, see \<open>routes_ignore_previous_state\<close>.
\<close>

theorem curTime_left_in_global_state:
  "snd (getWalkingRoute (Str ''KEY'')
          \<lparr>getUTCFullYear = 2011, getUTCMonth = 5, getUTCDate = 7,
           getUTCHours = 9, getUTCMinutes = 3, getUTCSeconds = 0\<rparr>
          ''100 N Broad St, Philadelphia'' ''908 N 3rd St., Philadelphia''
          (Some ''callback'') \<lparr>curTime = None\<rparr>)
     = \<lparr>curTime = Some \<lparr>getUTCFullYear = 2011, getUTCMonth = 5, getUTCDate = 7,
                          getUTCHours = 9, getUTCMinutes = 3, getUTCSeconds = 0\<rparr>\<rparr>"
  by (simp add: routes_store_curTime)

text \<open>
  Claim C10: with no API key in the environment, each of the three operations still
  returns a request in flight, to the URL of its resource, whose query string has the
  parameter \<open>key\<close> with the value \<open>undefined\<close>; nothing fails locally.
\<close>

theorem missing_key_sent_as_undefined:
  "(\<exists>url. fst (getTransitRoute Undefined now a b cb g) = Inr (Request url cb)
        \<and> take 51 url = ''http://dev.virtualearth.net/REST/v1/Routes/Transit?''
        \<and> (''key'', ''undefined'') \<in> set (query_params url))
   \<and> (\<exists>url. fst (getWalkingRoute Undefined now a b cb g) = Inr (Request url cb)
        \<and> take 51 url = ''http://dev.virtualearth.net/REST/v1/Routes/Walking?''
        \<and> (''key'', ''undefined'') \<in> set (query_params url))
   \<and> (\<exists>url. fst (getDrivingRoute Undefined now a b cb g) = Inr (Request url cb)
        \<and> take 51 url = ''http://dev.virtualearth.net/REST/v1/Routes/Driving?''
        \<and> (''key'', ''undefined'') \<in> set (query_params url))"
  by (simp add: getTransitRoute_eq getWalkingRoute_eq getDrivingRoute_eq
      transit_query_params walking_query_params driving_query_params encode_literals)
     (simp add: createTransitUrl_def createWalkingUrl_def createDrivingUrl_def
      SERVICE_URL_def TRANSIT_RESOURCE_def WALKING_RESOURCE_def DRIVING_RESOURCE_def
      objectToQueryString_def)

end
